theory Spec2Isabelle
  imports Main "HOL-Library.Multiset" "HOL-Library.Char_ord" "HOL-Library.List_Lexorder"
    "HOL-Library.AList"
begin

section \<open>ESLint flat configuration and import editing over a syntax tree\<close>

text \<open>
  The two utility classes \<^verbatim>\<open>EslintTsMorphUtil\<close> and \<^verbatim>\<open>ImportTsMorphUtil\<close> edit a
  syntax tree that the ts-morph library parses from a source text. The model keeps of
  that tree what the classes read and write:
  \<^item> an expression node is a value of \<open>expr\<close>; a literal node holds its literal value, an
    identifier its name, and the nodes the decoder cannot interpret hold the source text
    that \<^verbatim>\<open>getText()\<close> returns;
  \<^item> a member of an object literal is a value of \<open>member\<close>; a property assignment holds
    the text of its name node (with the quotes when the key is quoted, which is what
    \<^verbatim>\<open>getName()\<close> returns) and its initializer;
  \<^item> a JavaScript value is a value of \<open>jsvalue\<close>; an object is the list of its entries in
    insertion order, as \<^verbatim>\<open>Object.entries\<close> enumerates them;
  \<^item> a node reference is the position of the node in its parent's list; an operation
    that mutates the tree returns the new tree; a \<^verbatim>\<open>throw\<close> is the \<open>Inl\<close> of a sum.

  The keys of an object are taken to be names, not array indices, so that assigning to a
  new key appends an entry and assigning to a present key keeps its place. A number is
  held as the text that \<^verbatim>\<open>String(value)\<close> returns for it, which determines the number.

  Where an operation hands text to ts-morph, the model gives the resulting node only for
  text of a fragment on which the parse is plain: printable ASCII strings without
  backslash, identifier names as keys, number texts. Outside the fragment the operation
  ends in \<open>Inl NotModelled\<close>, which stands for no outcome of the class: the model does not
  say what the class does there.
\<close>

subsection \<open>Syntax nodes and JavaScript values\<close>

type_synonym jsnumber = string

datatype jsvalue =
    JString string
  | JNumber jsnumber
  | JBool bool
  | JNull
  | JUndefined
  | JArray "jsvalue list"
  | JObject "(string \<times> jsvalue) list"

datatype expr =
    StringLiteral string
  | NumericLiteral jsnumber
  | TrueKeyword
  | FalseKeyword
  | NullKeyword
  | UndefinedKeyword
  | Identifier string
  | ImportExpression
  | ArrayLiteralExpression "expr list"
  | ObjectLiteralExpression "member list"
  | AwaitExpression string expr
  | CallExpression string expr "expr list"
  | OtherExpression string
and member =
    PropertyAssignment string "expr option"
  | SpreadAssignment string
  | OtherNamedMember string

text \<open>
  \<open>AwaitExpression t e\<close> is an await of \<open>e\<close> whose source text is \<open>t\<close>;
  \<open>CallExpression t f args\<close> is a call of \<open>f\<close> with source text \<open>t\<close>; \<open>ImportExpression\<close>
  is the keyword \<^verbatim>\<open>import\<close> in callee position; \<open>OtherExpression t\<close> is any other
  expression, with its source text. \<open>SpreadAssignment t\<close> is the member \<^verbatim>\<open>...t\<close>: the
  classes read only the text of the spread expression. \<open>OtherNamedMember n\<close> is a
  shorthand property, a method or an accessor named \<open>n\<close>. The text of a literal, array
  or object node is never read, and \<open>getText\<close> is left unspecified there.
\<close>

fun getText :: "expr \<Rightarrow> string" where
  "getText (Identifier n) = n"
| "getText (AwaitExpression t _) = t"
| "getText (CallExpression t _ _) = t"
| "getText (OtherExpression t) = t"
| "getText ImportExpression = ''import''"
| "getText TrueKeyword = ''true''"
| "getText FalseKeyword = ''false''"
| "getText NullKeyword = ''null''"
| "getText UndefinedKeyword = ''undefined''"

fun isStringLiteral :: "expr \<Rightarrow> bool" where
  "isStringLiteral (StringLiteral _) = True"
| "isStringLiteral _ = False"

fun getLiteralValue :: "expr \<Rightarrow> string" where
  "getLiteralValue (StringLiteral v) = v"

fun isPropertyAssignment :: "member \<Rightarrow> bool" where
  "isPropertyAssignment (PropertyAssignment _ _) = True"
| "isPropertyAssignment _ = False"

fun getName :: "member \<Rightarrow> string option" where
  "getName (PropertyAssignment n _) = Some n"
| "getName (OtherNamedMember n) = Some n"
| "getName (SpreadAssignment _) = None"

fun findIndex :: "('a \<Rightarrow> bool) \<Rightarrow> 'a list \<Rightarrow> nat option" where
  "findIndex P [] = None"
| "findIndex P (x # xs) = (if P x then Some 0 else map_option Suc (findIndex P xs))"

definition getProperty :: "member list \<Rightarrow> string \<Rightarrow> nat option" where
  \<comment> \<open>\<^verbatim>\<open>getProperty(name)\<close>: the first member whose name text is \<open>name\<close>.\<close>
  "getProperty props name = findIndex (\<lambda>p. getName p = Some name) props"

definition stringLiteralValues :: "expr list \<Rightarrow> string list" where
  \<comment> \<open>\<^verbatim>\<open>getElements().filter(Node.isStringLiteral).map(el => el.getLiteralValue())\<close>\<close>
  "stringLiteralValues es = map getLiteralValue (filter isStringLiteral es)"

subsection \<open>The session\<close>

datatype error =
    NoExportDefault
  | ExportDefaultNotArray
  | FilePathRequired
  | ConfigArrayNotFound
  | NoConfigFound "string list"
  | RulesNotObjectLiteral
  | InvalidOperation
  | NotModelled

record EslintTsMorphUtil =
  configArray :: "expr list option"

text \<open>
  A source file is the list that \<^verbatim>\<open>getExportAssignments()\<close> returns for it: its export
  assignments in file order, each an \<^verbatim>\<open>export default\<close> or an \<^verbatim>\<open>export =\<close> statement with its
  expression. A workspace tree gives, for a path, the source file that the project creates
  from the content the tree holds there (from the empty text, which has no statement, when
  it holds none).
\<close>

record ExportAssignment =
  isExportEquals :: bool
  getExpression :: expr

definition parseConfigArray :: "ExportAssignment list \<Rightarrow> error + EslintTsMorphUtil" where
  "parseConfigArray sourceFile =
     (case sourceFile of
        [] \<Rightarrow> Inl NoExportDefault
      | exportAssignment # _ \<Rightarrow>
          (case getExpression exportAssignment of
             ArrayLiteralExpression elements \<Rightarrow> Inr \<lparr>configArray = Some elements\<rparr>
           | _ \<Rightarrow> Inl ExportDefaultNotArray))"

datatype sourceFileOrTree =
    SourceFile "ExportAssignment list"
  | Tree "string \<Rightarrow> ExportAssignment list"

definition constructor :: "sourceFileOrTree \<Rightarrow> string option \<Rightarrow> error + EslintTsMorphUtil" where
  \<comment> \<open>\<^verbatim>\<open>constructor(sourceFileOrTree, filePath?)\<close>; \<^verbatim>\<open>!filePath\<close> holds of no path and of the
      empty path.\<close>
  "constructor input filePath =
     (case input of
        SourceFile sourceFile \<Rightarrow> parseConfigArray sourceFile
      | Tree tree \<Rightarrow>
          (case filePath of
             None \<Rightarrow> Inl FilePathRequired
           | Some path \<Rightarrow>
               if path = [] then Inl FilePathRequired else parseConfigArray (tree path)))"

subsection \<open>Lookup by file patterns\<close>

definition arraysEqual :: "string list \<Rightarrow> string list \<Rightarrow> bool" where
  "arraysEqual a b =
     (if length a \<noteq> length b then False
      else let sortedA = sort a; sortedB = sort b
           in list_all (\<lambda>index. sortedA ! index = sortedB ! index) [0..<length sortedA])"

definition existingFiles :: "expr \<Rightarrow> string list option" where
  \<comment> \<open>The string literals of the \<^verbatim>\<open>files\<close> array literal of an element, when it has one.\<close>
  "existingFiles element =
     (case element of
        ObjectLiteralExpression props \<Rightarrow>
          (case getProperty props ''files'' of
             None \<Rightarrow> None
           | Some i \<Rightarrow>
               (case props ! i of
                  PropertyAssignment _ (Some (ArrayLiteralExpression es)) \<Rightarrow>
                    Some (stringLiteralValues es)
                | _ \<Rightarrow> None))
      | _ \<Rightarrow> None)"

definition filesMatch :: "string list \<Rightarrow> expr \<Rightarrow> bool" where
  \<comment> \<open>The body of the loops of \<^verbatim>\<open>findConfigByFiles\<close> and \<^verbatim>\<open>removeConfig\<close>.\<close>
  "filesMatch files element =
     (case existingFiles element of
        Some found \<Rightarrow> arraysEqual found files
      | None \<Rightarrow> False)"

definition findConfigByFiles :: "EslintTsMorphUtil \<Rightarrow> string list \<Rightarrow> nat option" where
  "findConfigByFiles this files =
     (case configArray this of
        None \<Rightarrow> None
      | Some elements \<Rightarrow> findIndex (filesMatch files) elements)"

subsection \<open>Decoding property values\<close>

definition stripQuotes :: "string \<Rightarrow> string" where
  \<comment> \<open>\<^verbatim>\<open>name.replace(/^(['"])(.*)\1$/, '$2')\<close>; the dot matches no line terminator.\<close>
  "stripQuotes name =
     (if 2 \<le> length name \<and> (hd name = CHR 0x27 \<or> hd name = CHR 0x22) \<and> last name = hd name
         \<and> list_all (\<lambda>c. c \<noteq> CHR 0x0A \<and> c \<noteq> CHR 0x0D) (butlast (tl name))
      then butlast (tl name) else name)"

definition isImportExpression :: "expr \<Rightarrow> bool" where
  \<comment> \<open>\<^verbatim>\<open>Node.isImportExpression(e) || (Node.isIdentifier(e) && e.getText() === 'import')\<close>\<close>
  "isImportExpression expression =
     (expression = ImportExpression \<or> expression = Identifier ''import'')"

fun parseDynamicImport :: "expr \<Rightarrow> jsvalue option" where
  "parseDynamicImport (CallExpression _ expression callArguments) =
     (if isImportExpression expression \<and> length callArguments > 0
      then (case hd callArguments of
              StringLiteral v \<Rightarrow> Some (JObject [(''__dynamicImport'', JString v)])
            | _ \<Rightarrow> None)
      else None)"
| "parseDynamicImport _ = None"

definition assignAll :: "(string \<times> jsvalue) list \<Rightarrow> (string \<times> jsvalue) list \<Rightarrow> (string \<times> jsvalue) list" where
  \<comment> \<open>\<^verbatim>\<open>obj[key] = value\<close> for each entry in turn: a key that is present keeps its place.\<close>
  "assignAll entries obj = foldl (\<lambda>acc (key, v). AList.update key v acc) obj entries"

primrec parseNode :: "expr \<Rightarrow> jsvalue"
and parseMember :: "member \<Rightarrow> (string \<times> jsvalue) option"
where
  "parseNode (StringLiteral v) = JString v"
| "parseNode (NumericLiteral n) = JNumber n"
| "parseNode TrueKeyword = JBool True"
| "parseNode FalseKeyword = JBool False"
| "parseNode NullKeyword = JNull"
| "parseNode UndefinedKeyword = JUndefined"
| "parseNode (Identifier n) =
     (if getText (Identifier n) = ''undefined'' then JUndefined
      else JString (getText (Identifier n)))"
| "parseNode (ArrayLiteralExpression es) = JArray (map parseNode es)"
| "parseNode (ObjectLiteralExpression props) =
     JObject (assignAll (List.map_filter id (map parseMember props)) [])"
| "parseNode (AwaitExpression t awaitedExpression) =
     (case parseDynamicImport awaitedExpression of
        Some dynamicImport \<Rightarrow> dynamicImport
      | None \<Rightarrow> JString (getText (AwaitExpression t awaitedExpression)))"
| "parseNode (CallExpression t f args) = JString (getText (CallExpression t f args))"
| "parseNode ImportExpression = JString (getText ImportExpression)"
| "parseNode (OtherExpression t) = JString (getText (OtherExpression t))"
| "parseMember (PropertyAssignment propertyName propertyValue) =
     Some (stripQuotes propertyName,
           case map_option parseNode propertyValue of None \<Rightarrow> JUndefined | Some v \<Rightarrow> v)"
| "parseMember (SpreadAssignment t) = Some (''...'' @ t, JUndefined)"
| "parseMember (OtherNamedMember _) = None"

definition parsePropertyValue :: "expr option \<Rightarrow> jsvalue" where
  "parsePropertyValue valueNode =
     (case valueNode of None \<Rightarrow> JUndefined | Some node \<Rightarrow> parseNode node)"

definition parseObjectLiteral :: "member list \<Rightarrow> (string \<times> jsvalue) list" where
  "parseObjectLiteral props = assignAll (List.map_filter parseMember props) []"











subsection \<open>Text handed to the parser\<close>

text \<open>
  The classes build source text and ts-morph parses it where it is inserted. The
  predicates below delimit the texts whose parse the model gives. A plain text is
  printable ASCII without backslash: inside single quotes, with each single quote
  escaped, it is a string literal with that value. A quotable text is a plain text
  without single quote: it is the value of the string literal that results from putting
  it between single quotes unescaped. An identifier name is a property name as it stands.
  A number text is the decimal text of a number that \<^verbatim>\<open>String\<close> prints with up to 15
  digits, plainly or with an exponent; read as a numeric literal it is that number again.
\<close>

definition isPlainChar :: "char \<Rightarrow> bool" where
  "isPlainChar c = (CHR 0x20 \<le> c \<and> c \<le> CHR 0x7E \<and> c \<noteq> CHR 0x5C)"

definition isPlainText :: "string \<Rightarrow> bool" where
  "isPlainText s = list_all isPlainChar s"

definition isQuotableText :: "string \<Rightarrow> bool" where
  "isQuotableText s = list_all (\<lambda>c. isPlainChar c \<and> c \<noteq> CHR 0x27) s"

definition isDigit :: "char \<Rightarrow> bool" where
  "isDigit c = (CHR ''0'' \<le> c \<and> c \<le> CHR ''9'')"

definition isIdentifierStart :: "char \<Rightarrow> bool" where
  "isIdentifierStart c =
     ((CHR ''a'' \<le> c \<and> c \<le> CHR ''z'') \<or> (CHR ''A'' \<le> c \<and> c \<le> CHR ''Z'')
      \<or> c = CHR ''_'' \<or> c = CHR ''$'')"

definition isIdentifierName :: "string \<Rightarrow> bool" where
  "isIdentifierName s =
     (case s of
        [] \<Rightarrow> False
      | c # cs \<Rightarrow> isIdentifierStart c \<and> list_all (\<lambda>c. isIdentifierStart c \<or> isDigit c) cs)"

definition reservedWords :: "string list" where
  "reservedWords =
     [''break'', ''case'', ''catch'', ''class'', ''const'', ''continue'', ''debugger'',
      ''default'', ''delete'', ''do'', ''else'', ''enum'', ''export'', ''extends'', ''false'',
      ''finally'', ''for'', ''function'', ''if'', ''import'', ''in'', ''instanceof'', ''new'',
      ''null'', ''return'', ''super'', ''switch'', ''this'', ''throw'', ''true'', ''try'',
      ''typeof'', ''var'', ''void'', ''while'', ''with'', ''implements'', ''interface'',
      ''let'', ''package'', ''private'', ''protected'', ''public'', ''static'', ''yield'',
      ''await'', ''type'', ''eval'', ''arguments'']"

definition isIdentifierReference :: "string \<Rightarrow> bool" where
  \<comment> \<open>An identifier name that is no reserved word of module code.\<close>
  "isIdentifierReference s = (isIdentifierName s \<and> s \<notin> set reservedWords)"

fun dotSegments :: "string \<Rightarrow> string list" where
  "dotSegments [] = [[]]"
| "dotSegments (c # cs) =
     (if c = CHR ''.'' then [] # dotSegments cs
      else (case dotSegments cs of
              [] \<Rightarrow> [[c]]
            | segment # segments \<Rightarrow> (c # segment) # segments))"

definition isSpreadExpressionText :: "string \<Rightarrow> bool" where
  \<comment> \<open>An identifier followed by property accesses, as in \<^verbatim>\<open>base.configs.recommended\<close>.\<close>
  "isSpreadExpressionText t =
     (case dotSegments t of
        [] \<Rightarrow> False
      | segment # segments \<Rightarrow> isIdentifierReference segment \<and> list_all isIdentifierName segments)"

definition isDigits :: "string \<Rightarrow> bool" where
  "isDigits s = (s \<noteq> [] \<and> list_all isDigit s)"

definition isIntegerText :: "string \<Rightarrow> bool" where
  "isIntegerText s = (isDigits s \<and> (s = ''0'' \<or> hd s \<noteq> CHR ''0''))"

definition isDecimalText :: "string \<Rightarrow> bool" where
  \<comment> \<open>\<^verbatim>\<open>12\<close>, \<^verbatim>\<open>0.5\<close>, \<^verbatim>\<open>0.000001\<close>: at most 15 digits, no zero at the end of the fraction, and
      at most five zeros after \<^verbatim>\<open>0.\<close> (a smaller number is printed with an exponent).\<close>
  "isDecimalText n =
     (let whole = takeWhile (\<lambda>c. c \<noteq> CHR ''.'') n;
          rest = dropWhile (\<lambda>c. c \<noteq> CHR ''.'') n
      in isIntegerText whole \<and> length whole + (length rest - 1) \<le> 15 \<and>
         (if rest = [] then True
          else isDigits (tl rest) \<and> last rest \<noteq> CHR ''0'' \<and>
               (if whole = ''0'' then length (takeWhile (\<lambda>c. c = CHR ''0'') (tl rest)) \<le> 5
                else True)))"

definition natOfDigits :: "string \<Rightarrow> nat" where
  "natOfDigits s = foldl (\<lambda>acc c. 10 * acc + (of_char c - 48)) 0 s"

definition isExponentText :: "string \<Rightarrow> bool" where
  \<comment> \<open>\<^verbatim>\<open>1e+21\<close>, \<^verbatim>\<open>1.5e-7\<close>: one digit that is not zero, a fraction, and an exponent of at
      least 21, or of at most -7, within the range of normal doubles.\<close>
  "isExponentText n =
     (let mantissa = takeWhile (\<lambda>c. c \<noteq> CHR ''e'') n;
          exponent = dropWhile (\<lambda>c. c \<noteq> CHR ''e'') n
      in isDecimalText mantissa \<and> length (takeWhile (\<lambda>c. c \<noteq> CHR ''.'') mantissa) = 1 \<and>
         hd mantissa \<noteq> CHR ''0'' \<and> 3 \<le> length exponent \<and>
         isIntegerText (drop 2 exponent) \<and>
         ((exponent ! 1 = CHR ''+'' \<and> 21 \<le> natOfDigits (drop 2 exponent)
             \<and> natOfDigits (drop 2 exponent) \<le> 300)
          \<or> (exponent ! 1 = CHR ''-'' \<and> 7 \<le> natOfDigits (drop 2 exponent)
             \<and> natOfDigits (drop 2 exponent) \<le> 300)))"

definition isUnsignedNumberText :: "jsnumber \<Rightarrow> bool" where
  "isUnsignedNumberText n = (isDecimalText n \<or> isExponentText n)"

subsection \<open>Encoding values\<close>

text \<open>
  \<^verbatim>\<open>valueToString\<close> renders a value as text, and ts-morph parses that text when it is set
  as an initializer or added as an element. \<open>valueToStringNode\<close> is the node that results,
  and \<open>None\<close> when the text is outside the texts above. A string becomes a string literal
  with that value (the text escapes single quotes only); a number that is not negative a
  numeric literal, \<^verbatim>\<open>NaN\<close> and \<^verbatim>\<open>Infinity\<close> identifiers, a negative number a prefix
  expression, which is none of the shapes the decoder knows; a key of an object becomes
  a single-quoted property name, and a key that starts with three dots a spread member
  whose expression is the rest of the key, the value of that key being left out.
\<close>

definition singleQuoted :: "string \<Rightarrow> string" where
  "singleQuoted s = CHR 0x27 # s @ [CHR 0x27]"

fun showNat :: "nat \<Rightarrow> string" where
  "showNat n = (if n < 10 then [char_of (48 + n)] else showNat (n div 10) @ [char_of (48 + n mod 10)])"

fun joinWith :: "string \<Rightarrow> string list \<Rightarrow> string" where
  "joinWith sep [] = []"
| "joinWith sep [x] = x"
| "joinWith sep (x # y # ys) = x @ sep @ joinWith sep (y # ys)"

primrec truthy :: "jsvalue \<Rightarrow> bool" where
  "truthy (JString s) = (s \<noteq> [])"
| "truthy (JNumber n) = (n \<noteq> ''0'' \<and> n \<noteq> ''NaN'')"
| "truthy (JBool b) = b"
| "truthy JNull = False"
| "truthy JUndefined = False"
| "truthy (JArray _) = True"
| "truthy (JObject _) = True"

primrec toStringJS :: "jsvalue \<Rightarrow> string" where
  "toStringJS (JString s) = s"
| "toStringJS (JNumber n) = n"
| "toStringJS (JBool b) = (if b then ''true'' else ''false'')"
| "toStringJS JNull = ''null''"
| "toStringJS JUndefined = ''undefined''"
| "toStringJS (JArray vs) =
     joinWith '','' (map (\<lambda>v. if v = JNull \<or> v = JUndefined then [] else toStringJS v) vs)"
| "toStringJS (JObject _) = ''[object Object]''"

definition numberNode :: "jsnumber \<Rightarrow> expr option" where
  \<comment> \<open>The node that the text \<^verbatim>\<open>String(value)\<close> of a number parses to.\<close>
  "numberNode n =
     (if isUnsignedNumberText n then Some (NumericLiteral n)
      else if n = ''NaN'' \<or> n = ''Infinity'' then Some (Identifier n)
      else if n = ''-Infinity'' then Some (OtherExpression n)
      else if take 1 n = ''-'' \<and> isUnsignedNumberText (drop 1 n) \<and> drop 1 n \<noteq> ''0''
      then Some (OtherExpression n)
      else None)"

definition dynamicImportNode :: "string \<Rightarrow> expr option" where
  \<comment> \<open>The node of \<^verbatim>\<open>await import('${modulePath}')\<close>.\<close>
  "dynamicImportNode modulePath =
     (if isQuotableText modulePath
      then Some (AwaitExpression (''await import('' @ singleQuoted modulePath @ '')'')
             (CallExpression (''import('' @ singleQuoted modulePath @ '')'') ImportExpression
                [StringLiteral modulePath]))
      else None)"

definition objectMember :: "string \<times> expr option \<Rightarrow> member option" where
  \<comment> \<open>The member that one round of the loop of \<^verbatim>\<open>valueToString\<close> over the entries prints.\<close>
  "objectMember kv =
     (if take 3 (fst kv) = ''...''
      then (if isSpreadExpressionText (drop 3 (fst kv))
            then Some (SpreadAssignment (drop 3 (fst kv))) else None)
      else (if isQuotableText (fst kv)
            then map_option (\<lambda>init. PropertyAssignment (singleQuoted (fst kv)) (Some init)) (snd kv)
            else None))"

definition allSome :: "'a option list \<Rightarrow> 'a list option" where
  \<comment> \<open>The list of the values when every one is there.\<close>
  "allSome xs = (if list_all (\<lambda>x. x \<noteq> None) xs then Some (map the xs) else None)"

definition objectNode :: "(string \<times> jsvalue) list \<Rightarrow> (string \<times> expr option) list \<Rightarrow> expr option" where
  "objectNode obj rendered =
     (case map_of obj ''__dynamicImport'' of
        Some d \<Rightarrow> if truthy d then dynamicImportNode (toStringJS d)
                  else map_option ObjectLiteralExpression (allSome (map objectMember rendered))
      | None \<Rightarrow> map_option ObjectLiteralExpression (allSome (map objectMember rendered)))"

primrec valueToStringNode :: "jsvalue \<Rightarrow> expr option" where
  "valueToStringNode JNull = Some NullKeyword"
| "valueToStringNode JUndefined = Some (Identifier ''undefined'')"
| "valueToStringNode (JString s) = (if isPlainText s then Some (StringLiteral s) else None)"
| "valueToStringNode (JNumber n) = numberNode n"
| "valueToStringNode (JBool b) = Some (if b then TrueKeyword else FalseKeyword)"
| "valueToStringNode (JArray vs) =
     map_option ArrayLiteralExpression (allSome (map valueToStringNode vs))"
| "valueToStringNode (JObject obj) =
     objectNode obj (map (map_prod id valueToStringNode) obj)"

subsection \<open>Adding and updating entries\<close>

text \<open>
  \<^verbatim>\<open>addPropertyAssignment\<close> prints the name as it is given, a colon and the initializer,
  after the last member; \<^verbatim>\<open>addNewConfigObject\<close> prints its members the same way into the
  text of the new element. A key of the configuration object is therefore a member name
  only when it is an identifier name, and a rule name, which the class puts between single
  quotes, is one when it is a quotable text.
\<close>

type_synonym EslintConfigObject = "(string \<times> jsvalue) list"

definition configFiles :: "EslintConfigObject \<Rightarrow> string list" where
  \<comment> \<open>\<^verbatim>\<open>config.files || []\<close>, with \<^verbatim>\<open>files\<close> typed \<^verbatim>\<open>string[]\<close>.\<close>
  "configFiles config =
     (case map_of config ''files'' of
        Some (JArray vs) \<Rightarrow> List.map_filter (\<lambda>v. case v of JString s \<Rightarrow> Some s | _ \<Rightarrow> None) vs
      | _ \<Rightarrow> [])"

definition objectEntries :: "jsvalue \<Rightarrow> (string \<times> jsvalue) list option" where
  \<comment> \<open>\<^verbatim>\<open>Object.entries(value)\<close> where \<^verbatim>\<open>typeof value === 'object' && value !== null\<close>.\<close>
  "objectEntries v =
     (case v of
        JObject obj \<Rightarrow> Some obj
      | JArray vs \<Rightarrow> Some (zip (map showNat [0..<length vs]) vs)
      | _ \<Rightarrow> None)"

definition setInitializer :: "member \<Rightarrow> expr \<Rightarrow> member" where
  "setInitializer property init =
     (case property of PropertyAssignment n _ \<Rightarrow> PropertyAssignment n (Some init) | _ \<Rightarrow> property)"

definition removeAt :: "nat \<Rightarrow> 'a list \<Rightarrow> 'a list" where
  "removeAt i xs = take i xs @ drop (Suc i) xs"

definition setInitializerTo :: "member \<Rightarrow> jsvalue \<Rightarrow> member option" where
  \<comment> \<open>\<^verbatim>\<open>property.setInitializer(this.valueToString(value))\<close>\<close>
  "setInitializerTo property v = map_option (setInitializer property) (valueToStringNode v)"

definition quotedProperty :: "string \<Rightarrow> jsvalue \<Rightarrow> member option" where
  \<comment> \<open>The member of \<^verbatim>\<open>{ name: `'${ruleName}'`, initializer: this.valueToString(value) }\<close>.\<close>
  "quotedProperty ruleName v =
     (if isQuotableText ruleName
      then map_option (\<lambda>init. PropertyAssignment (singleQuoted ruleName) (Some init))
             (valueToStringNode v)
      else None)"

definition bareProperty :: "string \<Rightarrow> jsvalue \<Rightarrow> member option" where
  \<comment> \<open>The member of \<^verbatim>\<open>{ name: key, initializer: this.valueToString(value) }\<close>.\<close>
  "bareProperty key v =
     (if isIdentifierName key
      then map_option (\<lambda>init. PropertyAssignment key (Some init)) (valueToStringNode v)
      else None)"

fun foldlOption :: "('b \<Rightarrow> 'a \<Rightarrow> 'b option) \<Rightarrow> 'b \<Rightarrow> 'a list \<Rightarrow> 'b option" where
  "foldlOption f acc [] = Some acc"
| "foldlOption f acc (x # xs) =
     (case f acc x of None \<Rightarrow> None | Some acc' \<Rightarrow> foldlOption f acc' xs)"

definition updateRulesEntry :: "member list \<Rightarrow> string \<times> jsvalue \<Rightarrow> member list option" where
  \<comment> \<open>One round of the loop of \<^verbatim>\<open>updateRulesProperty\<close>.\<close>
  "updateRulesEntry rulesObj entry =
     (case getProperty rulesObj (fst entry) of
        Some i \<Rightarrow>
          if isPropertyAssignment (rulesObj ! i)
          then map_option (\<lambda>property. rulesObj[i := property])
                 (setInitializerTo (rulesObj ! i) (snd entry))
          else map_option (\<lambda>property. rulesObj @ [property])
                 (quotedProperty (fst entry) (snd entry))
      | None \<Rightarrow>
          map_option (\<lambda>property. rulesObj @ [property]) (quotedProperty (fst entry) (snd entry)))"

definition updateRulesProperty :: "member \<Rightarrow> jsvalue \<Rightarrow> member option" where
  "updateRulesProperty rulesProperty newRules =
     (case rulesProperty of
        PropertyAssignment n (Some (ObjectLiteralExpression rulesObj)) \<Rightarrow>
          map_option (\<lambda>rulesObj'. PropertyAssignment n (Some (ObjectLiteralExpression rulesObj')))
            (foldlOption updateRulesEntry rulesObj
               (case objectEntries newRules of Some es \<Rightarrow> es | None \<Rightarrow> []))
      | _ \<Rightarrow> setInitializerTo rulesProperty newRules)"

definition updateConfigEntry :: "member list \<Rightarrow> string \<times> jsvalue \<Rightarrow> member list option" where
  \<comment> \<open>One round of the loop of \<^verbatim>\<open>updateConfigObject\<close>.\<close>
  "updateConfigEntry configObj entry =
     (case getProperty configObj (fst entry) of
        Some i \<Rightarrow>
          if isPropertyAssignment (configObj ! i)
          then map_option (\<lambda>property. configObj[i := property])
                 (if fst entry = ''rules'' \<and> objectEntries (snd entry) \<noteq> None
                  then updateRulesProperty (configObj ! i) (snd entry)
                  else setInitializerTo (configObj ! i) (snd entry))
          else map_option (\<lambda>property. configObj @ [property])
                 (bareProperty (fst entry) (snd entry))
      | None \<Rightarrow>
          map_option (\<lambda>property. configObj @ [property]) (bareProperty (fst entry) (snd entry)))"

definition updateConfigObject :: "member list \<Rightarrow> EslintConfigObject \<Rightarrow> member list option" where
  "updateConfigObject configObj newConfig = foldlOption updateConfigEntry configObj newConfig"

definition newConfigObject :: "EslintConfigObject \<Rightarrow> expr option" where
  \<comment> \<open>The element that the text \<^verbatim>\<open>addNewConfigObject\<close> passes to \<^verbatim>\<open>addElement\<close> parses to.\<close>
  "newConfigObject config =
     map_option ObjectLiteralExpression
       (allSome (map (\<lambda>entry. bareProperty (fst entry) (snd entry)) config))"

definition modelled :: "'a option \<Rightarrow> error + 'a" where
  "modelled result = (case result of None \<Rightarrow> Inl NotModelled | Some r \<Rightarrow> Inr r)"

definition addNewConfigObject :: "EslintTsMorphUtil \<Rightarrow> EslintConfigObject \<Rightarrow> error + EslintTsMorphUtil" where
  "addNewConfigObject this config =
     (case configArray this of
        None \<Rightarrow> Inr this
      | Some elements \<Rightarrow>
          modelled (map_option (\<lambda>element. this\<lparr>configArray := Some (elements @ [element])\<rparr>)
            (newConfigObject config)))"

definition mutateConfigObject ::
  "EslintTsMorphUtil \<Rightarrow> nat \<Rightarrow> (member list \<Rightarrow> member list) \<Rightarrow> EslintTsMorphUtil" where
  \<comment> \<open>An in-place change of the members of the object literal at position \<open>i\<close>.\<close>
  "mutateConfigObject this i f =
     (case configArray this of
        None \<Rightarrow> this
      | Some elements \<Rightarrow>
          (case elements ! i of
             ObjectLiteralExpression configObj \<Rightarrow>
               this\<lparr>configArray := Some (elements[i := ObjectLiteralExpression (f configObj)])\<rparr>
           | _ \<Rightarrow> this))"

definition tryMutateConfigObject ::
  "EslintTsMorphUtil \<Rightarrow> nat \<Rightarrow> (member list \<Rightarrow> member list option) \<Rightarrow> error + EslintTsMorphUtil" where
  \<comment> \<open>The same for a change that inserts text.\<close>
  "tryMutateConfigObject this i f =
     (case configArray this of
        None \<Rightarrow> Inr this
      | Some elements \<Rightarrow>
          (case elements ! i of
             ObjectLiteralExpression configObj \<Rightarrow>
               modelled (map_option
                 (\<lambda>configObj'. this\<lparr>configArray := Some (elements[i := ObjectLiteralExpression configObj'])\<rparr>)
                 (f configObj))
           | _ \<Rightarrow> Inr this))"

definition addOrUpdateConfig :: "EslintTsMorphUtil \<Rightarrow> EslintConfigObject \<Rightarrow> error + EslintTsMorphUtil" where
  "addOrUpdateConfig this config =
     (case configArray this of
        None \<Rightarrow> Inl ConfigArrayNotFound
      | Some _ \<Rightarrow>
          (case findConfigByFiles this (configFiles config) of
             Some existingConfig \<Rightarrow>
               tryMutateConfigObject this existingConfig (\<lambda>configObj. updateConfigObject configObj config)
           | None \<Rightarrow> addNewConfigObject this config))"

definition removeConfig :: "EslintTsMorphUtil \<Rightarrow> string list \<Rightarrow> EslintTsMorphUtil" where
  "removeConfig this filePattern =
     (case configArray this of
        None \<Rightarrow> this
      | Some elements \<Rightarrow>
          (case findIndex (filesMatch filePattern) elements of
             Some i \<Rightarrow> this\<lparr>configArray := Some (removeAt i elements)\<rparr>
           | None \<Rightarrow> this))"

subsection \<open>Editing rules\<close>

definition doubleQuoted :: "string \<Rightarrow> string" where
  "doubleQuoted s = CHR 0x22 # s @ [CHR 0x22]"

definition mutateRulesObject :: "member list \<Rightarrow> (member list \<Rightarrow> member list) \<Rightarrow> member list" where
  \<comment> \<open>An in-place change of the rules object literal of an entry, when it has one.\<close>
  "mutateRulesObject configObj f =
     (case getProperty configObj ''rules'' of
        Some j \<Rightarrow>
          (case configObj ! j of
             PropertyAssignment n (Some (ObjectLiteralExpression rulesObj)) \<Rightarrow>
               configObj[j := PropertyAssignment n (Some (ObjectLiteralExpression (f rulesObj)))]
           | _ \<Rightarrow> configObj)
      | None \<Rightarrow> configObj)"

definition tryMutateRulesObject ::
  "member list \<Rightarrow> (member list \<Rightarrow> member list option) \<Rightarrow> member list option" where
  \<comment> \<open>The same for a change that inserts text.\<close>
  "tryMutateRulesObject configObj f =
     (case getProperty configObj ''rules'' of
        Some j \<Rightarrow>
          (case configObj ! j of
             PropertyAssignment n (Some (ObjectLiteralExpression rulesObj)) \<Rightarrow>
               map_option
                 (\<lambda>rulesObj'. configObj[j := PropertyAssignment n (Some (ObjectLiteralExpression rulesObj'))])
                 (f rulesObj)
           | _ \<Rightarrow> Some configObj)
      | None \<Rightarrow> Some configObj)"

definition hasRulesAssignment :: "member list \<Rightarrow> bool" where
  \<comment> \<open>\<^verbatim>\<open>Node.isPropertyAssignment(configObj.getProperty('rules'))\<close>\<close>
  "hasRulesAssignment configObj =
     (case getProperty configObj ''rules'' of
        Some j \<Rightarrow> isPropertyAssignment (configObj ! j)
      | None \<Rightarrow> False)"

definition findRuleProperty :: "member list \<Rightarrow> string \<Rightarrow> nat option" where
  \<comment> \<open>\<^verbatim>\<open>getProperty(ruleName) || getProperty(`'${ruleName}'`) || getProperty(`"${ruleName}"`)\<close>\<close>
  "findRuleProperty rulesObj ruleName =
     (case getProperty rulesObj ruleName of
        Some k \<Rightarrow> Some k
      | None \<Rightarrow>
          (case getProperty rulesObj (singleQuoted ruleName) of
             Some k \<Rightarrow> Some k
           | None \<Rightarrow> getProperty rulesObj (doubleQuoted ruleName)))"

definition addRule :: "EslintTsMorphUtil \<Rightarrow> string list \<Rightarrow> string \<Rightarrow> jsvalue \<Rightarrow> error + EslintTsMorphUtil" where
  "addRule this filePattern ruleName ruleConfig =
     (case findConfigByFiles this filePattern of
        None \<Rightarrow>
          addOrUpdateConfig this
            [(''files'', JArray (map JString filePattern)), (''rules'', JObject [(ruleName, ruleConfig)])]
      | Some i \<Rightarrow>
          tryMutateConfigObject this i
            (\<lambda>configObj.
               if hasRulesAssignment configObj
               then tryMutateRulesObject configObj
                      (\<lambda>rulesObj. map_option (\<lambda>property. rulesObj @ [property])
                         (quotedProperty ruleName ruleConfig))
               else map_option
                      (\<lambda>property. configObj @
                         [PropertyAssignment ''rules'' (Some (ObjectLiteralExpression [property]))])
                      (quotedProperty ruleName ruleConfig)))"

definition removeRule :: "EslintTsMorphUtil \<Rightarrow> string list \<Rightarrow> string \<Rightarrow> EslintTsMorphUtil" where
  "removeRule this filePattern ruleName =
     (case findConfigByFiles this filePattern of
        None \<Rightarrow> this
      | Some i \<Rightarrow>
          mutateConfigObject this i
            (\<lambda>configObj.
               mutateRulesObject configObj
                 (\<lambda>rulesObj.
                    case findRuleProperty rulesObj ruleName of
                      Some k \<Rightarrow> removeAt k rulesObj
                    | None \<Rightarrow> rulesObj)))"

definition updateRule :: "EslintTsMorphUtil \<Rightarrow> string list \<Rightarrow> string \<Rightarrow> jsvalue \<Rightarrow> error + EslintTsMorphUtil" where
  "updateRule this filePattern ruleName ruleConfig =
     (case findConfigByFiles this filePattern of
        None \<Rightarrow> addRule this filePattern ruleName ruleConfig
      | Some i \<Rightarrow>
          tryMutateConfigObject this i
            (\<lambda>configObj.
               tryMutateRulesObject configObj
                 (\<lambda>rulesObj.
                    case findRuleProperty rulesObj ruleName of
                      Some k \<Rightarrow>
                        if isPropertyAssignment (rulesObj ! k)
                        then map_option (\<lambda>property. rulesObj[k := property])
                               (setInitializerTo (rulesObj ! k) ruleConfig)
                        else map_option (\<lambda>property. rulesObj @ [property])
                               (quotedProperty ruleName ruleConfig)
                    | None \<Rightarrow>
                        map_option (\<lambda>property. rulesObj @ [property])
                          (quotedProperty ruleName ruleConfig))))"

subsection \<open>Spread members\<close>

definition rulesObjectOf :: "member list \<Rightarrow> error + member list" where
  \<comment> \<open>The two checks that the rules variants of the spread operations share.\<close>
  "rulesObjectOf configObj =
     (case getProperty configObj ''rules'' of
        None \<Rightarrow> Inl RulesNotObjectLiteral
      | Some j \<Rightarrow>
          (case configObj ! j of
             PropertyAssignment _ (Some (ObjectLiteralExpression rulesObj)) \<Rightarrow> Inr rulesObj
           | _ \<Rightarrow> Inl RulesNotObjectLiteral))"

definition removeSpread :: "string \<Rightarrow> member list \<Rightarrow> member list" where
  \<comment> \<open>The loop that removes the first spread member whose expression text is equal.\<close>
  "removeSpread spreadExpression props =
     (case findIndex (\<lambda>property. property = SpreadAssignment spreadExpression) props of
        Some k \<Rightarrow> removeAt k props
      | None \<Rightarrow> props)"

definition configObjectAt :: "EslintTsMorphUtil \<Rightarrow> nat \<Rightarrow> member list" where
  "configObjectAt this i =
     (case configArray this of
        Some elements \<Rightarrow> (case elements ! i of ObjectLiteralExpression configObj \<Rightarrow> configObj | _ \<Rightarrow> [])
      | None \<Rightarrow> [])"

definition addSpreadToRules :: "EslintTsMorphUtil \<Rightarrow> string list \<Rightarrow> string \<Rightarrow> error + EslintTsMorphUtil" where
  "addSpreadToRules this filePattern spreadExpression =
     (case findConfigByFiles this filePattern of
        None \<Rightarrow> Inl (NoConfigFound filePattern)
      | Some i \<Rightarrow>
          (case rulesObjectOf (configObjectAt this i) of
             Inl e \<Rightarrow> Inl e
           | Inr _ \<Rightarrow>
               Inr (mutateConfigObject this i
                 (\<lambda>configObj. mutateRulesObject configObj
                    (\<lambda>rulesObj. rulesObj @ [SpreadAssignment spreadExpression])))))"

definition removeSpreadFromRules :: "EslintTsMorphUtil \<Rightarrow> string list \<Rightarrow> string \<Rightarrow> error + EslintTsMorphUtil" where
  "removeSpreadFromRules this filePattern spreadExpression =
     (case findConfigByFiles this filePattern of
        None \<Rightarrow> Inl (NoConfigFound filePattern)
      | Some i \<Rightarrow>
          (case rulesObjectOf (configObjectAt this i) of
             Inl e \<Rightarrow> Inl e
           | Inr _ \<Rightarrow>
               Inr (mutateConfigObject this i
                 (\<lambda>configObj. mutateRulesObject configObj (removeSpread spreadExpression)))))"

definition addSpreadToConfig :: "EslintTsMorphUtil \<Rightarrow> string list \<Rightarrow> string \<Rightarrow> error + EslintTsMorphUtil" where
  "addSpreadToConfig this filePattern spreadExpression =
     (case findConfigByFiles this filePattern of
        None \<Rightarrow> Inl (NoConfigFound filePattern)
      | Some i \<Rightarrow>
          Inr (mutateConfigObject this i (\<lambda>configObj. configObj @ [SpreadAssignment spreadExpression])))"

definition removeSpreadFromConfig :: "EslintTsMorphUtil \<Rightarrow> string list \<Rightarrow> string \<Rightarrow> error + EslintTsMorphUtil" where
  "removeSpreadFromConfig this filePattern spreadExpression =
     (case findConfigByFiles this filePattern of
        None \<Rightarrow> Inl (NoConfigFound filePattern)
      | Some i \<Rightarrow> Inr (mutateConfigObject this i (removeSpread spreadExpression)))"

section \<open>Import declarations\<close>

text \<open>
  An import declaration is its module specifier, its default import, its namespace import
  and its named imports (name and alias) in order; the source file is the list of its
  import declarations in file order, and a new declaration is added after them. The
  ts-morph calls on a declaration are modelled as the library documents them:
  \<^verbatim>\<open>setDefaultImport\<close> and \<^verbatim>\<open>setNamespaceImport\<close> clear the slot when the text is blank, and
  the library refuses, with an error, a namespace import beside named imports (the
  repository's tests note that ts-morph does not allow mixing them). A specifier that is
  written into a declaration is read back as it was given when it is an identifier, and
  a module specifier when it is a plain text; the property of \<^verbatim>\<open>ensureImport\<close> assumes both.
\<close>

datatype importType = Named | Default | Namespace | Full

record ImportDeclaration =
  moduleSpecifierValue :: string
  defaultImport :: "string option"
  namespaceImport :: "string option"
  namedImports :: "(string \<times> string option) list"

definition isNullOrWhitespace :: "string \<Rightarrow> bool" where
  "isNullOrWhitespace text =
     list_all (\<lambda>c. c = CHR '' '' \<or> c = CHR 0x09 \<or> c = CHR 0x0A \<or> c = CHR 0x0D) text"

definition setDefaultImport :: "ImportDeclaration \<Rightarrow> string \<Rightarrow> ImportDeclaration" where
  "setDefaultImport importDecl text =
     (if isNullOrWhitespace text then importDecl\<lparr>defaultImport := None\<rparr>
      else importDecl\<lparr>defaultImport := Some text\<rparr>)"

definition setNamespaceImport :: "ImportDeclaration \<Rightarrow> string \<Rightarrow> error + ImportDeclaration" where
  "setNamespaceImport importDecl text =
     (if isNullOrWhitespace text then Inr (importDecl\<lparr>namespaceImport := None\<rparr>)
      else if namespaceImport importDecl \<noteq> None then Inr (importDecl\<lparr>namespaceImport := Some text\<rparr>)
      else if namedImports importDecl \<noteq> [] then Inl InvalidOperation
      else Inr (importDecl\<lparr>namespaceImport := Some text\<rparr>))"

definition addNamedImport :: "ImportDeclaration \<Rightarrow> string \<Rightarrow> error + ImportDeclaration" where
  "addNamedImport importDecl name =
     (if namedImports importDecl = [] \<and> namespaceImport importDecl \<noteq> None then Inl InvalidOperation
      else Inr (importDecl\<lparr>namedImports := namedImports importDecl @ [(name, None)]\<rparr>))"

definition findImportDeclaration :: "ImportDeclaration list \<Rightarrow> string \<Rightarrow> nat option" where
  "findImportDeclaration decls moduleSpecifier =
     findIndex (\<lambda>importDecl. moduleSpecifierValue importDecl = moduleSpecifier) decls"

definition matchesNamedImport :: "string \<Rightarrow> string \<times> string option \<Rightarrow> bool" where
  \<comment> \<open>\<^verbatim>\<open>ni.getName() === specifier || ni.getAliasNode()?.getText() === specifier\<close>\<close>
  "matchesNamedImport specifier namedImport =
     (fst namedImport = specifier \<or> snd namedImport = Some specifier)"

definition hasImportSpecifier :: "ImportDeclaration \<Rightarrow> string \<Rightarrow> importType \<Rightarrow> bool" where
  "hasImportSpecifier importDecl specifier importType =
     (case importType of
        Default \<Rightarrow> defaultImport importDecl = Some specifier
      | Namespace \<Rightarrow> namespaceImport importDecl = Some specifier
      | Named \<Rightarrow> list_ex (matchesNamedImport specifier) (namedImports importDecl)
      | Full \<Rightarrow> False)"

definition addSpecifierToImport ::
  "ImportDeclaration \<Rightarrow> string \<Rightarrow> importType \<Rightarrow> error + ImportDeclaration" where
  "addSpecifierToImport importDecl specifier importType =
     (case importType of
        Default \<Rightarrow>
          if defaultImport importDecl = None then Inr (setDefaultImport importDecl specifier)
          else Inr importDecl
      | Namespace \<Rightarrow>
          if namespaceImport importDecl = None then setNamespaceImport importDecl specifier
          else Inr importDecl
      | Named \<Rightarrow>
          if \<not> hasImportSpecifier importDecl specifier Named then addNamedImport importDecl specifier
          else Inr importDecl
      | Full \<Rightarrow> Inr importDecl)"

definition createImportDeclaration ::
  "ImportDeclaration list \<Rightarrow> string \<Rightarrow> string \<Rightarrow> importType \<Rightarrow> ImportDeclaration list" where
  "createImportDeclaration decls specifier moduleSpecifier importType =
     decls @
       [\<lparr>moduleSpecifierValue = moduleSpecifier,
         defaultImport = (if importType = Default then Some specifier else None),
         namespaceImport = (if importType = Namespace then Some specifier else None),
         namedImports = (if importType = Named then [(specifier, None)] else [])\<rparr>]"

definition ensureImport ::
  "ImportDeclaration list \<Rightarrow> string \<Rightarrow> string \<Rightarrow> importType \<Rightarrow> error + ImportDeclaration list" where
  "ensureImport decls importSpecifier moduleSpecifier importType =
     (case findImportDeclaration decls moduleSpecifier of
        Some i \<Rightarrow>
          if importType = Full \<or> hasImportSpecifier (decls ! i) importSpecifier importType
          then Inr decls
          else (case addSpecifierToImport (decls ! i) importSpecifier importType of
                  Inl e \<Rightarrow> Inl e
                | Inr importDecl \<Rightarrow> Inr (decls[i := importDecl]))
      | None \<Rightarrow> Inr (createImportDeclaration decls importSpecifier moduleSpecifier importType))"




section \<open>Predicates of the properties\<close>

fun isArrayLiteralExpression :: "expr \<Rightarrow> bool" where
  "isArrayLiteralExpression (ArrayLiteralExpression _) = True"
| "isArrayLiteralExpression _ = False"

text \<open>
  The shapes that the decoder interprets: literals, the keywords, the identifier
  \<^verbatim>\<open>undefined\<close>, array and object literals, and an awaited call of \<^verbatim>\<open>import\<close> whose first
  argument is a string literal.
\<close>

fun recognizedShape :: "expr \<Rightarrow> bool" where
  "recognizedShape (StringLiteral _) = True"
| "recognizedShape (NumericLiteral _) = True"
| "recognizedShape TrueKeyword = True"
| "recognizedShape FalseKeyword = True"
| "recognizedShape NullKeyword = True"
| "recognizedShape UndefinedKeyword = True"
| "recognizedShape (Identifier n) = (n = ''undefined'')"
| "recognizedShape (ArrayLiteralExpression _) = True"
| "recognizedShape (ObjectLiteralExpression _) = True"
| "recognizedShape (AwaitExpression _ (CallExpression _ callee (StringLiteral _ # _))) =
     isImportExpression callee"
| "recognizedShape _ = False"


definition exportDefaults :: "ExportAssignment list \<Rightarrow> expr list" where
  \<comment> \<open>The expressions of the export-default statements of the file.\<close>
  "exportDefaults sourceFile =
     map getExpression (filter (\<lambda>exportAssignment. \<not> isExportEquals exportAssignment) sourceFile)"

definition lacksDefaultExportedArray :: "ExportAssignment list \<Rightarrow> bool" where
  \<comment> \<open>The file has no export-default statement, or the exported expression is no array
      literal.\<close>
  "lacksDefaultExportedArray sourceFile =
     (case exportDefaults sourceFile of
        [] \<Rightarrow> True
      | expression # _ \<Rightarrow> \<not> isArrayLiteralExpression expression)"










definition namedWithoutNamespace :: "ImportDeclaration list \<Rightarrow> string \<Rightarrow> bool" where
  \<comment> \<open>The declaration that imports from the module holds named imports and no namespace
      import.\<close>
  "namedWithoutNamespace decls moduleSpecifier =
     (case findImportDeclaration decls moduleSpecifier of
        None \<Rightarrow> False
      | Some i \<Rightarrow> namespaceImport (decls ! i) = None \<and> namedImports (decls ! i) \<noteq> [])"

definition defaultImportOf :: "ImportDeclaration list \<Rightarrow> string \<Rightarrow> string option" where
  \<comment> \<open>The default specifier of the declaration that imports from the module, if any.\<close>
  "defaultImportOf decls moduleSpecifier =
     (case findImportDeclaration decls moduleSpecifier of
        None \<Rightarrow> None
      | Some i \<Rightarrow> defaultImport (decls ! i))"

definition namespaceImportOf :: "ImportDeclaration list \<Rightarrow> string \<Rightarrow> string option" where
  \<comment> \<open>The namespace specifier of the declaration that imports from the module, if any.\<close>
  "namespaceImportOf decls moduleSpecifier =
     (case findImportDeclaration decls moduleSpecifier of
        None \<Rightarrow> None
      | Some i \<Rightarrow> namespaceImport (decls ! i))"


definition rulesIsObjectLiteral :: "member list \<Rightarrow> bool" where
  \<comment> \<open>The entry has a \<^verbatim>\<open>rules\<close> property assignment whose initializer is an object literal.\<close>
  "rulesIsObjectLiteral configObj =
     (case getProperty configObj ''rules'' of
        None \<Rightarrow> False
      | Some j \<Rightarrow>
          (case configObj ! j of
             PropertyAssignment _ (Some (ObjectLiteralExpression _)) \<Rightarrow> True
           | _ \<Rightarrow> False))"



section \<open>Lemmas\<close>

subsection \<open>Searching a list\<close>

lemma findIndex_Some_iff:
  "findIndex P xs = Some i \<longleftrightarrow> i < length xs \<and> P (xs ! i) \<and> (\<forall>j<i. \<not> P (xs ! j))"
proof (induction xs arbitrary: i)
  case Nil
  then show ?case by simp
next
  case (Cons x xs)
  show ?case
  proof (cases "P x")
    case True
    then show ?thesis by (cases i) auto
  next
    case False
    then show ?thesis
      using Cons.IH by (cases i) (auto simp: less_Suc_eq_0_disj)
  qed
qed



lemma findIndex_append_new:
  "findIndex P xs = None \<Longrightarrow> P x \<Longrightarrow> findIndex P (xs @ [x]) = Some (length xs)"
  by (induction xs) (auto split: if_splits)

lemma findIndex_update_same:
  assumes "findIndex P xs = Some i" and "P y"
  shows "findIndex P (xs[i := y]) = Some i"
proof -
  from assms(1) have lt: "i < length xs" and nb: "\<forall>j<i. \<not> P (xs ! j)"
    by (simp_all add: findIndex_Some_iff)
  have "\<forall>j<i. \<not> P (xs[i := y] ! j)" using nb by simp
  with lt assms(2) show ?thesis by (simp add: findIndex_Some_iff)
qed


subsection \<open>Lookup by file patterns\<close>






lemma existingFiles_Some:
  assumes "existingFiles element = Some found"
  shows "\<exists>props j n es. element = ObjectLiteralExpression props \<and> getProperty props ''files'' = Some j
           \<and> props ! j = PropertyAssignment n (Some (ArrayLiteralExpression es))
           \<and> found = stringLiteralValues es"
proof (cases element)
  case (ObjectLiteralExpression props)
  show ?thesis
  proof (cases "getProperty props ''files''")
    case None
    with assms ObjectLiteralExpression show ?thesis by (simp add: existingFiles_def)
  next
    case (Some j)
    show ?thesis
    proof (cases "props ! j")
      case (PropertyAssignment n init)
      show ?thesis
      proof (cases init)
        case None
        with assms ObjectLiteralExpression Some PropertyAssignment show ?thesis
          by (simp add: existingFiles_def)
      next
        case (Some e)
        with assms ObjectLiteralExpression \<open>getProperty props ''files'' = Some j\<close> PropertyAssignment
        show ?thesis
          by (cases e) (simp_all add: existingFiles_def)
      qed
    qed (use assms ObjectLiteralExpression Some in \<open>simp_all add: existingFiles_def\<close>)
  qed
qed (use assms in \<open>simp_all add: existingFiles_def\<close>)

lemma filesMatch_ObjectLiteral:
  "filesMatch files element \<Longrightarrow> \<exists>configObj. element = ObjectLiteralExpression configObj"
  using existingFiles_Some by (fastforce simp: filesMatch_def split: option.splits)


lemma findConfigByFiles_Some:
  assumes "findConfigByFiles this files = Some i"
  shows "\<exists>elements configObj. configArray this = Some elements \<and> i < length elements
           \<and> elements ! i = ObjectLiteralExpression configObj \<and> filesMatch files (elements ! i)"
proof -
  from assms obtain elements where ca: "configArray this = Some elements"
    and fi: "findIndex (filesMatch files) elements = Some i"
    by (cases "configArray this") (simp_all add: findConfigByFiles_def)
  from fi have lt: "i < length elements" and fm: "filesMatch files (elements ! i)"
    by (simp_all add: findIndex_Some_iff)
  from fm obtain configObj where "elements ! i = ObjectLiteralExpression configObj"
    using filesMatch_ObjectLiteral by blast
  with ca lt fm show ?thesis by blast
qed

subsection \<open>In-place changes\<close>

lemma mutateConfigObject_at:
  assumes "configArray this = Some elements" and "elements ! i = ObjectLiteralExpression configObj"
  shows "mutateConfigObject this i f =
           this\<lparr>configArray := Some (elements[i := ObjectLiteralExpression (f configObj)])\<rparr>"
  using assms by (simp add: mutateConfigObject_def)

lemma mutateConfigObject_id:
  assumes "configArray this = Some elements" and "elements ! i = ObjectLiteralExpression configObj"
    and "f configObj = configObj"
  shows "mutateConfigObject this i f = this"
proof -
  have "elements[i := ObjectLiteralExpression configObj] = elements"
    using assms(2) by (metis list_update_id)
  then show ?thesis
    using assms by (simp add: mutateConfigObject_def)
qed

lemma mutateRulesObject_at:
  assumes "getProperty configObj ''rules'' = Some j"
    and "configObj ! j = PropertyAssignment n (Some (ObjectLiteralExpression rulesObj))"
  shows "mutateRulesObject configObj f =
           configObj[j := PropertyAssignment n (Some (ObjectLiteralExpression (f rulesObj)))]"
  using assms by (simp add: mutateRulesObject_def)

lemma mutateRulesObject_id:
  assumes "\<And>rulesObj. rulesObjectOf configObj = Inr rulesObj \<Longrightarrow> f rulesObj = rulesObj"
  shows "mutateRulesObject configObj f = configObj"
proof (cases "getProperty configObj ''rules''")
  case None
  then show ?thesis by (simp add: mutateRulesObject_def)
next
  case (Some j)
  show ?thesis
  proof (cases "configObj ! j")
    case (PropertyAssignment n init)
    show ?thesis
    proof (cases init)
      case None
      with Some PropertyAssignment show ?thesis by (simp add: mutateRulesObject_def)
    next
      case (Some e)
      note j = \<open>getProperty configObj ''rules'' = Some j\<close>
      show ?thesis
      proof (cases e)
        case (ObjectLiteralExpression rulesObj)
        with j PropertyAssignment Some have "rulesObjectOf configObj = Inr rulesObj"
          by (simp add: rulesObjectOf_def)
        from assms[OF this] have "f rulesObj = rulesObj" .
        moreover have "configObj[j := configObj ! j] = configObj" by simp
        ultimately show ?thesis
          using j PropertyAssignment Some ObjectLiteralExpression
          by (simp add: mutateRulesObject_def)
      qed (use j PropertyAssignment Some in \<open>simp_all add: mutateRulesObject_def\<close>)
    qed
  qed (use Some in \<open>simp_all add: mutateRulesObject_def\<close>)
qed

lemma configObjectAt_eq:
  "configArray this = Some elements \<Longrightarrow> elements ! i = ObjectLiteralExpression configObj
   \<Longrightarrow> configObjectAt this i = configObj"
  by (simp add: configObjectAt_def)

lemma rulesObjectOf_Inl:
  "\<not> rulesIsObjectLiteral configObj \<Longrightarrow> rulesObjectOf configObj = Inl RulesNotObjectLiteral"
proof (cases "getProperty configObj ''rules''")
  case None
  then show ?thesis by (simp add: rulesObjectOf_def)
next
  case (Some j)
  assume nr: "\<not> rulesIsObjectLiteral configObj"
  show ?thesis
  proof (cases "configObj ! j")
    case (PropertyAssignment n init)
    show ?thesis
    proof (cases init)
      case None
      with Some PropertyAssignment show ?thesis by (simp add: rulesObjectOf_def)
    next
      case (Some e)
      with nr \<open>getProperty configObj ''rules'' = Some j\<close> PropertyAssignment show ?thesis
        by (cases e) (simp_all add: rulesObjectOf_def rulesIsObjectLiteral_def)
    qed
  qed (use Some in \<open>simp_all add: rulesObjectOf_def\<close>)
qed


subsection \<open>Patterns and printable values\<close>









subsection \<open>Updates that insert text\<close>
















subsection \<open>Evaluation on concrete trees\<close>

lemmas lookup_eval =
  findConfigByFiles_def filesMatch_def existingFiles_def getProperty_def stringLiteralValues_def
  arraysEqual_def

lemmas text_eval =
  isPlainText_def isPlainChar_def isQuotableText_def isIdentifierName_def isIdentifierStart_def
  isDigit_def less_eq_char_def

lemmas update_eval =
  addOrUpdateConfig_def tryMutateConfigObject_def addNewConfigObject_def newConfigObject_def
  configFiles_def updateConfigObject_def updateConfigEntry_def updateRulesProperty_def
  updateRulesEntry_def objectEntries_def setInitializer_def setInitializerTo_def
  quotedProperty_def bareProperty_def allSome_def modelled_def objectNode_def objectMember_def
  singleQuoted_def doubleQuoted_def List.map_filter_def


lemma parseNode_ObjectLiteralExpression:
  "parseNode (ObjectLiteralExpression props) = JObject (parseObjectLiteral props)"
  by (simp add: parseObjectLiteral_def List.map_filter_def filter_map comp_def)

section \<open>Upserting entries\<close>




text \<open>
  C2. The claim asks that a rule name already present in the rules of the matched entry has
  its value replaced in place. \<^verbatim>\<open>updateRulesProperty\<close> looks the name up by its bare text
  only, while it writes rule names in single quotes, as most configuration files do: on
  the entry \<^verbatim>\<open>{ files: ['**/*.ts'], rules: { 'no-console': 'error' } }\<close> the upsert of
  \<^verbatim>\<open>{ files: ['**/*.ts'], rules: { 'no-console': 'warn' } }\<close> leaves the old property and
  appends a second one with the same key. \<^verbatim>\<open>updateRule\<close>, which tries the bare, the
  single-quoted and the double-quoted key, replaces the value in place on the same input.
\<close>

theorem addOrUpdateConfig_duplicates_quoted_rule:
  "addOrUpdateConfig \<lparr>configArray = Some [ObjectLiteralExpression
       [PropertyAssignment ''files'' (Some (ArrayLiteralExpression [StringLiteral ''**/*.ts''])),
        PropertyAssignment ''rules'' (Some (ObjectLiteralExpression
          [PropertyAssignment (singleQuoted ''no-console'') (Some (StringLiteral ''error''))]))]]\<rparr>
     [(''files'', JArray [JString ''**/*.ts'']), (''rules'', JObject [(''no-console'', JString ''warn'')])]
   = Inr \<lparr>configArray = Some [ObjectLiteralExpression
       [PropertyAssignment ''files'' (Some (ArrayLiteralExpression [StringLiteral ''**/*.ts''])),
        PropertyAssignment ''rules'' (Some (ObjectLiteralExpression
          [PropertyAssignment (singleQuoted ''no-console'') (Some (StringLiteral ''error'')),
           PropertyAssignment (singleQuoted ''no-console'') (Some (StringLiteral ''warn''))]))]]\<rparr>
   \<and> updateRule \<lparr>configArray = Some [ObjectLiteralExpression
       [PropertyAssignment ''files'' (Some (ArrayLiteralExpression [StringLiteral ''**/*.ts''])),
        PropertyAssignment ''rules'' (Some (ObjectLiteralExpression
          [PropertyAssignment (singleQuoted ''no-console'') (Some (StringLiteral ''error''))]))]]\<rparr>
     [''**/*.ts''] ''no-console'' (JString ''warn'')
   = Inr \<lparr>configArray = Some [ObjectLiteralExpression
       [PropertyAssignment ''files'' (Some (ArrayLiteralExpression [StringLiteral ''**/*.ts''])),
        PropertyAssignment ''rules'' (Some (ObjectLiteralExpression
          [PropertyAssignment (singleQuoted ''no-console'') (Some (StringLiteral ''warn''))]))]]\<rparr>"
  by (simp add: lookup_eval update_eval text_eval updateRule_def tryMutateRulesObject_def
      findRuleProperty_def)




section \<open>Editing rules and spreads\<close>



text \<open>
  C7. When no entry matches the patterns, the four spread operations raise an error, while
  \<^verbatim>\<open>removeConfig\<close> and \<^verbatim>\<open>removeRule\<close> leave the session as it is. On a matching entry whose
  \<^verbatim>\<open>rules\<close> property is not an object literal, the two rules variants raise an error. On
  a matching entry that does not hold the rule, \<^verbatim>\<open>removeRule\<close> leaves the session as it
  is.
\<close>

theorem spread_operations_raise:
  "(findConfigByFiles this filePattern = None \<longrightarrow>
       addSpreadToRules this filePattern spreadExpression = Inl (NoConfigFound filePattern)
     \<and> removeSpreadFromRules this filePattern spreadExpression = Inl (NoConfigFound filePattern)
     \<and> addSpreadToConfig this filePattern spreadExpression = Inl (NoConfigFound filePattern)
     \<and> removeSpreadFromConfig this filePattern spreadExpression = Inl (NoConfigFound filePattern)
     \<and> removeConfig this filePattern = this
     \<and> removeRule this filePattern ruleName = this)
   \<and> (findConfigByFiles this filePattern = Some i \<and> \<not> rulesIsObjectLiteral (configObjectAt this i) \<longrightarrow>
       addSpreadToRules this filePattern spreadExpression = Inl RulesNotObjectLiteral
     \<and> removeSpreadFromRules this filePattern spreadExpression = Inl RulesNotObjectLiteral)
   \<and> (findConfigByFiles this filePattern = Some i
       \<and> (\<forall>rulesObj. rulesObjectOf (configObjectAt this i) = Inr rulesObj
             \<longrightarrow> findRuleProperty rulesObj ruleName = None) \<longrightarrow>
       removeRule this filePattern ruleName = this)"
proof (intro conjI impI)
  assume none: "findConfigByFiles this filePattern = None"
  show "addSpreadToRules this filePattern spreadExpression = Inl (NoConfigFound filePattern)"
    using none by (simp add: addSpreadToRules_def)
  show "removeSpreadFromRules this filePattern spreadExpression = Inl (NoConfigFound filePattern)"
    using none by (simp add: removeSpreadFromRules_def)
  show "addSpreadToConfig this filePattern spreadExpression = Inl (NoConfigFound filePattern)"
    using none by (simp add: addSpreadToConfig_def)
  show "removeSpreadFromConfig this filePattern spreadExpression = Inl (NoConfigFound filePattern)"
    using none by (simp add: removeSpreadFromConfig_def)
  show "removeConfig this filePattern = this"
    using none by (cases "configArray this") (simp_all add: removeConfig_def findConfigByFiles_def)
  show "removeRule this filePattern ruleName = this"
    using none by (simp add: removeRule_def)
next
  assume a: "findConfigByFiles this filePattern = Some i \<and> \<not> rulesIsObjectLiteral (configObjectAt this i)"
  then have r: "rulesObjectOf (configObjectAt this i) = Inl RulesNotObjectLiteral"
    by (simp add: rulesObjectOf_Inl)
  show "addSpreadToRules this filePattern spreadExpression = Inl RulesNotObjectLiteral"
    using a r by (simp add: addSpreadToRules_def)
  show "removeSpreadFromRules this filePattern spreadExpression = Inl RulesNotObjectLiteral"
    using a r by (simp add: removeSpreadFromRules_def)
next
  assume a: "findConfigByFiles this filePattern = Some i
       \<and> (\<forall>rulesObj. rulesObjectOf (configObjectAt this i) = Inr rulesObj
             \<longrightarrow> findRuleProperty rulesObj ruleName = None)"
  then have f: "findConfigByFiles this filePattern = Some i" by simp
  from findConfigByFiles_Some[OF f] obtain elements configObj where
    ca: "configArray this = Some elements" and el: "elements ! i = ObjectLiteralExpression configObj"
    by blast
  have at: "configObjectAt this i = configObj" using ca el by (rule configObjectAt_eq)
  have "mutateRulesObject configObj
          (\<lambda>rulesObj. case findRuleProperty rulesObj ruleName of
                        Some k \<Rightarrow> removeAt k rulesObj | None \<Rightarrow> rulesObj) = configObj"
  proof (rule mutateRulesObject_id)
    fix rulesObj assume "rulesObjectOf configObj = Inr rulesObj"
    with a at have "findRuleProperty rulesObj ruleName = None" by simp
    then show "(case findRuleProperty rulesObj ruleName of
                  Some k \<Rightarrow> removeAt k rulesObj | None \<Rightarrow> rulesObj) = rulesObj" by simp
  qed
  then have "mutateConfigObject this i
          (\<lambda>configObj. mutateRulesObject configObj
             (\<lambda>rulesObj. case findRuleProperty rulesObj ruleName of
                        Some k \<Rightarrow> removeAt k rulesObj | None \<Rightarrow> rulesObj)) = this"
    by (intro mutateConfigObject_id[OF ca el])
  with f show "removeRule this filePattern ruleName = this"
    by (simp add: removeRule_def)
qed

theorem spread_operations_raise_witness:
  "findConfigByFiles \<lparr>configArray = Some
       [ObjectLiteralExpression
          [PropertyAssignment ''files'' (Some (ArrayLiteralExpression [StringLiteral ''a''])),
           PropertyAssignment ''rules'' (Some (Identifier ''sharedRules''))],
        ObjectLiteralExpression
          [PropertyAssignment ''files'' (Some (ArrayLiteralExpression [StringLiteral ''c''])),
           PropertyAssignment ''rules'' (Some (ObjectLiteralExpression
             [PropertyAssignment (singleQuoted ''no-console'') (Some (StringLiteral ''error''))]))]]\<rparr>
     [''b''] = None
   \<and> addSpreadToConfig \<lparr>configArray = Some
       [ObjectLiteralExpression
          [PropertyAssignment ''files'' (Some (ArrayLiteralExpression [StringLiteral ''a''])),
           PropertyAssignment ''rules'' (Some (Identifier ''sharedRules''))],
        ObjectLiteralExpression
          [PropertyAssignment ''files'' (Some (ArrayLiteralExpression [StringLiteral ''c''])),
           PropertyAssignment ''rules'' (Some (ObjectLiteralExpression
             [PropertyAssignment (singleQuoted ''no-console'') (Some (StringLiteral ''error''))]))]]\<rparr>
     [''b''] ''base'' = Inl (NoConfigFound [''b''])
   \<and> removeSpreadFromRules \<lparr>configArray = Some
       [ObjectLiteralExpression
          [PropertyAssignment ''files'' (Some (ArrayLiteralExpression [StringLiteral ''a''])),
           PropertyAssignment ''rules'' (Some (Identifier ''sharedRules''))],
        ObjectLiteralExpression
          [PropertyAssignment ''files'' (Some (ArrayLiteralExpression [StringLiteral ''c''])),
           PropertyAssignment ''rules'' (Some (ObjectLiteralExpression
             [PropertyAssignment (singleQuoted ''no-console'') (Some (StringLiteral ''error''))]))]]\<rparr>
     [''b''] ''base'' = Inl (NoConfigFound [''b''])
   \<and> addSpreadToRules \<lparr>configArray = Some
       [ObjectLiteralExpression
          [PropertyAssignment ''files'' (Some (ArrayLiteralExpression [StringLiteral ''a''])),
           PropertyAssignment ''rules'' (Some (Identifier ''sharedRules''))],
        ObjectLiteralExpression
          [PropertyAssignment ''files'' (Some (ArrayLiteralExpression [StringLiteral ''c''])),
           PropertyAssignment ''rules'' (Some (ObjectLiteralExpression
             [PropertyAssignment (singleQuoted ''no-console'') (Some (StringLiteral ''error''))]))]]\<rparr>
     [''a''] ''base.rules'' = Inl RulesNotObjectLiteral
   \<and> removeRule \<lparr>configArray = Some
       [ObjectLiteralExpression
          [PropertyAssignment ''files'' (Some (ArrayLiteralExpression [StringLiteral ''a''])),
           PropertyAssignment ''rules'' (Some (Identifier ''sharedRules''))],
        ObjectLiteralExpression
          [PropertyAssignment ''files'' (Some (ArrayLiteralExpression [StringLiteral ''c''])),
           PropertyAssignment ''rules'' (Some (ObjectLiteralExpression
             [PropertyAssignment (singleQuoted ''no-console'') (Some (StringLiteral ''error''))]))]]\<rparr>
     [''c''] ''semi''
     = \<lparr>configArray = Some
       [ObjectLiteralExpression
          [PropertyAssignment ''files'' (Some (ArrayLiteralExpression [StringLiteral ''a''])),
           PropertyAssignment ''rules'' (Some (Identifier ''sharedRules''))],
        ObjectLiteralExpression
          [PropertyAssignment ''files'' (Some (ArrayLiteralExpression [StringLiteral ''c''])),
           PropertyAssignment ''rules'' (Some (ObjectLiteralExpression
             [PropertyAssignment (singleQuoted ''no-console'') (Some (StringLiteral ''error''))]))]]\<rparr>"
proof -
  let ?util = "\<lparr>configArray = Some
       [ObjectLiteralExpression
          [PropertyAssignment ''files'' (Some (ArrayLiteralExpression [StringLiteral ''a''])),
           PropertyAssignment ''rules'' (Some (Identifier ''sharedRules''))],
        ObjectLiteralExpression
          [PropertyAssignment ''files'' (Some (ArrayLiteralExpression [StringLiteral ''c''])),
           PropertyAssignment ''rules'' (Some (ObjectLiteralExpression
             [PropertyAssignment (singleQuoted ''no-console'') (Some (StringLiteral ''error''))]))]]\<rparr>"
  have h1: "findConfigByFiles ?util [''b''] = None" by (simp add: lookup_eval)
  have h2: "findConfigByFiles ?util [''a''] = Some 0" by (simp add: lookup_eval)
  have h3: "\<not> rulesIsObjectLiteral (configObjectAt ?util 0)"
    by (simp add: rulesIsObjectLiteral_def configObjectAt_def getProperty_def)
  have h4: "findConfigByFiles ?util [''c''] = Some 1" by (simp add: lookup_eval)
  have h5: "\<forall>rulesObj. rulesObjectOf (configObjectAt ?util 1) = Inr rulesObj
             \<longrightarrow> findRuleProperty rulesObj ''semi'' = None"
    by (simp add: rulesObjectOf_def configObjectAt_def getProperty_def findRuleProperty_def
        singleQuoted_def doubleQuoted_def)
  from spread_operations_raise[of ?util "[''b'']" "''base''" "''semi''" 0]
    spread_operations_raise[of ?util "[''a'']" "''base.rules''" "''semi''" 0]
    spread_operations_raise[of ?util "[''c'']" "''base''" "''semi''" 1] h1 h2 h3 h4 h5
  show ?thesis by simp
qed

section \<open>Decoding\<close>

text \<open>
  C3. Decoding is total and has no error outcome: \<open>parsePropertyValue\<close> is a total function
  into \<open>jsvalue\<close>, and every node that is not one of the recognized shapes decodes to the
  string that holds its source text.
\<close>

theorem parsePropertyValue_fallback:
  "\<not> recognizedShape valueNode \<Longrightarrow> parsePropertyValue (Some valueNode) = JString (getText valueNode)"
proof (cases valueNode)
  case (AwaitExpression t awaited)
  assume nr: "\<not> recognizedShape valueNode"
  show ?thesis
  proof (cases "parseDynamicImport awaited")
    case None
    with AwaitExpression show ?thesis by (simp add: parsePropertyValue_def)
  next
    case (Some d)
    then obtain ct callee args where aw: "awaited = CallExpression ct callee args"
      by (cases awaited) simp_all
    with Some have cal: "isImportExpression callee" and "args \<noteq> []"
      by (auto split: if_splits)
    then obtain a rest where args: "args = a # rest" by (cases args) auto
    with Some aw cal obtain v where "a = StringLiteral v"
      by (cases a) (auto split: if_splits)
    with nr AwaitExpression aw args cal show ?thesis by simp
  qed
qed (simp_all add: parsePropertyValue_def)

theorem parsePropertyValue_fallback_witness:
  "\<not> recognizedShape (CallExpression ''defineConfig(base)'' (Identifier ''defineConfig'') [Identifier ''base''])
   \<and> parsePropertyValue (Some (CallExpression ''defineConfig(base)'' (Identifier ''defineConfig'') [Identifier ''base'']))
       = JString ''defineConfig(base)''
   \<and> \<not> recognizedShape (Identifier ''globals'')
   \<and> parsePropertyValue (Some (Identifier ''globals'')) = JString ''globals''"
  using parsePropertyValue_fallback[of "CallExpression ''defineConfig(base)'' (Identifier ''defineConfig'') [Identifier ''base'']"]
    parsePropertyValue_fallback[of "Identifier ''globals''"]
  by simp

text \<open>
  C4, as amended. An awaited call decodes to the tagged value \<^verbatim>\<open>{__dynamicImport: path}\<close>
  exactly when its callee is the import expression or the identifier \<^verbatim>\<open>import\<close> and it has
  at least one argument, the first of which is a string literal; further arguments are
  ignored. Every other awaited call decodes to its source text.
\<close>

theorem parsePropertyValue_awaited_call:
  "parsePropertyValue (Some (AwaitExpression t (CallExpression ct callee callArguments))) =
     (if isImportExpression callee \<and> callArguments \<noteq> [] \<and> isStringLiteral (hd callArguments)
      then JObject [(''__dynamicImport'', JString (getLiteralValue (hd callArguments)))]
      else JString t)"
proof (cases callArguments)
  case Nil
  then show ?thesis by (simp add: parsePropertyValue_def isImportExpression_def)
next
  case (Cons firstArg rest)
  then show ?thesis
    by (cases firstArg) (simp_all add: parsePropertyValue_def isImportExpression_def)
qed

theorem parsePropertyValue_awaited_call_witness:
  \<open>parsePropertyValue (Some (AwaitExpression ''await import("jsonc-eslint-parser")''
      (CallExpression ''import("jsonc-eslint-parser")'' ImportExpression [StringLiteral ''jsonc-eslint-parser''])))
     = JObject [(''__dynamicImport'', JString ''jsonc-eslint-parser'')]
   \<and> parsePropertyValue (Some (AwaitExpression ''await load("x")''
      (CallExpression ''load("x")'' (Identifier ''load'') [StringLiteral ''x''])))
     = JString ''await load("x")''\<close>
  using parsePropertyValue_awaited_call[of \<open>''await import("jsonc-eslint-parser")''\<close>
      \<open>''import("jsonc-eslint-parser")''\<close> ImportExpression \<open>[StringLiteral ''jsonc-eslint-parser'']\<close>]
    parsePropertyValue_awaited_call[of \<open>''await load("x")''\<close> \<open>''load("x")''\<close> \<open>Identifier ''load''\<close>
      \<open>[StringLiteral ''x'']\<close>]
  by (simp add: isImportExpression_def)

text \<open>
  The claim as stated asks for exactly one argument. A dynamic import with a second
  argument is decoded to the tagged value all the same, not to its source text.
\<close>

theorem dynamic_import_two_arguments_counterexample:
  \<open>length [StringLiteral ''x'', ObjectLiteralExpression []] = 2
   \<and> parsePropertyValue (Some (AwaitExpression ''await import("x", {})''
        (CallExpression ''import("x", {})'' ImportExpression [StringLiteral ''x'', ObjectLiteralExpression []])))
      = JObject [(''__dynamicImport'', JString ''x'')]
   \<and> parsePropertyValue (Some (AwaitExpression ''await import("x", {})''
        (CallExpression ''import("x", {})'' ImportExpression [StringLiteral ''x'', ObjectLiteralExpression []])))
      \<noteq> JString ''await import("x", {})''\<close>
  by (simp add: parsePropertyValue_def isImportExpression_def)

section \<open>Construction\<close>






text \<open>
  The hypothesis on \<^verbatim>\<open>export =\<close> is needed: \<^verbatim>\<open>getExportAssignments()\<close> returns these
  statements too, and on a file that holds \<^verbatim>\<open>export = [];\<close> and no export-default statement
  the construction gives a session.
\<close>

lemma constructor_accepts_export_equals:
  "lacksDefaultExportedArray [\<lparr>isExportEquals = True, getExpression = ArrayLiteralExpression []\<rparr>]
   \<and> constructor (SourceFile [\<lparr>isExportEquals = True, getExpression = ArrayLiteralExpression []\<rparr>]) None
       = Inr \<lparr>configArray = Some []\<rparr>"
  by (simp add: constructor_def parseConfigArray_def lacksDefaultExportedArray_def exportDefaults_def)

section \<open>Import specifiers\<close>

lemma identifier_not_blank: "isIdentifierReference a \<Longrightarrow> \<not> isNullOrWhitespace a"
  by (cases a)
    (auto simp: isIdentifierReference_def isIdentifierName_def isIdentifierStart_def
      isNullOrWhitespace_def less_eq_char_def)

lemma ensureImport_default_new:
  assumes "findImportDeclaration decls m = None"
  shows "\<exists>s1. ensureImport decls a m Default = Inr s1 \<and> ensureImport s1 b m Default = Inr s1
              \<and> defaultImportOf s1 m = Some a"
proof -
  let ?d = "\<lparr>moduleSpecifierValue = m, defaultImport = Some a, namespaceImport = None, namedImports = []\<rparr>"
  let ?s1 = "decls @ [?d]"
  have e1: "ensureImport decls a m Default = Inr ?s1"
    using assms by (simp add: ensureImport_def createImportDeclaration_def)
  have f1: "findImportDeclaration ?s1 m = Some (length decls)"
    using assms unfolding findImportDeclaration_def by (intro findIndex_append_new) simp_all
  have e2: "ensureImport ?s1 b m Default = Inr ?s1"
    using f1 by (simp add: ensureImport_def hasImportSpecifier_def addSpecifierToImport_def)
  have "defaultImportOf ?s1 m = Some a"
    using f1 by (simp add: defaultImportOf_def)
  with e1 e2 show ?thesis by simp
qed

lemma ensureImport_default_existing:
  assumes f: "findImportDeclaration decls m = Some i" and nb: "\<not> isNullOrWhitespace a"
  shows "\<exists>s1. ensureImport decls a m Default = Inr s1 \<and> ensureImport s1 b m Default = Inr s1
              \<and> defaultImportOf s1 m = Some (case defaultImport (decls ! i) of None \<Rightarrow> a | Some c \<Rightarrow> c)"
proof (cases "defaultImport (decls ! i)")
  case (Some c)
  have e1: "ensureImport decls a m Default = Inr decls"
    using f Some by (simp add: ensureImport_def hasImportSpecifier_def addSpecifierToImport_def)
  have e2: "ensureImport decls b m Default = Inr decls"
    using f Some by (simp add: ensureImport_def hasImportSpecifier_def addSpecifierToImport_def)
  have "defaultImportOf decls m = Some c" using f Some by (simp add: defaultImportOf_def)
  with e1 e2 Some show ?thesis by simp
next
  case None
  let ?d = "(decls ! i)\<lparr>defaultImport := Some a\<rparr>"
  let ?s1 = "decls[i := ?d]"
  from f have lt: "i < length decls" and mi: "moduleSpecifierValue (decls ! i) = m"
    by (simp_all add: findImportDeclaration_def findIndex_Some_iff)
  have e1: "ensureImport decls a m Default = Inr ?s1"
    using f None nb
    by (simp add: ensureImport_def hasImportSpecifier_def addSpecifierToImport_def setDefaultImport_def)
  have f1: "findImportDeclaration ?s1 m = Some i"
    using f mi unfolding findImportDeclaration_def by (intro findIndex_update_same) simp_all
  have e2: "ensureImport ?s1 b m Default = Inr ?s1"
    using f1 lt by (simp add: ensureImport_def hasImportSpecifier_def addSpecifierToImport_def)
  have "defaultImportOf ?s1 m = Some a"
    using f1 lt by (simp add: defaultImportOf_def)
  with e1 e2 None show ?thesis by simp
qed

lemma ensureImport_namespace_new:
  assumes "findImportDeclaration decls m = None"
  shows "\<exists>s1. ensureImport decls a m Namespace = Inr s1 \<and> ensureImport s1 b m Namespace = Inr s1
              \<and> namespaceImportOf s1 m = Some a"
proof -
  let ?d = "\<lparr>moduleSpecifierValue = m, defaultImport = None, namespaceImport = Some a, namedImports = []\<rparr>"
  let ?s1 = "decls @ [?d]"
  have e1: "ensureImport decls a m Namespace = Inr ?s1"
    using assms by (simp add: ensureImport_def createImportDeclaration_def)
  have f1: "findImportDeclaration ?s1 m = Some (length decls)"
    using assms unfolding findImportDeclaration_def by (intro findIndex_append_new) simp_all
  have e2: "ensureImport ?s1 b m Namespace = Inr ?s1"
    using f1 by (simp add: ensureImport_def hasImportSpecifier_def addSpecifierToImport_def)
  have "namespaceImportOf ?s1 m = Some a"
    using f1 by (simp add: namespaceImportOf_def)
  with e1 e2 show ?thesis by simp
qed

lemma ensureImport_namespace_existing:
  assumes f: "findImportDeclaration decls m = Some i" and nb: "\<not> isNullOrWhitespace a"
    and free: "namespaceImport (decls ! i) \<noteq> None \<or> namedImports (decls ! i) = []"
  shows "\<exists>s1. ensureImport decls a m Namespace = Inr s1 \<and> ensureImport s1 b m Namespace = Inr s1
         \<and> namespaceImportOf s1 m = Some (case namespaceImport (decls ! i) of None \<Rightarrow> a | Some c \<Rightarrow> c)"
proof (cases "namespaceImport (decls ! i)")
  case (Some c)
  have e1: "ensureImport decls a m Namespace = Inr decls"
    using f Some by (simp add: ensureImport_def hasImportSpecifier_def addSpecifierToImport_def)
  have e2: "ensureImport decls b m Namespace = Inr decls"
    using f Some by (simp add: ensureImport_def hasImportSpecifier_def addSpecifierToImport_def)
  have "namespaceImportOf decls m = Some c" using f Some by (simp add: namespaceImportOf_def)
  with e1 e2 Some show ?thesis by simp
next
  case None
  let ?d = "(decls ! i)\<lparr>namespaceImport := Some a\<rparr>"
  let ?s1 = "decls[i := ?d]"
  from f have lt: "i < length decls" and mi: "moduleSpecifierValue (decls ! i) = m"
    by (simp_all add: findImportDeclaration_def findIndex_Some_iff)
  from free None have nn: "namedImports (decls ! i) = []" by simp
  have e1: "ensureImport decls a m Namespace = Inr ?s1"
    using f None nb nn
    by (simp add: ensureImport_def hasImportSpecifier_def addSpecifierToImport_def
        setNamespaceImport_def)
  have f1: "findImportDeclaration ?s1 m = Some i"
    using f mi unfolding findImportDeclaration_def by (intro findIndex_update_same) simp_all
  have e2: "ensureImport ?s1 b m Namespace = Inr ?s1"
    using f1 lt by (simp add: ensureImport_def hasImportSpecifier_def addSpecifierToImport_def)
  have "namespaceImportOf ?s1 m = Some a"
    using f1 lt by (simp add: namespaceImportOf_def)
  with e1 e2 None show ?thesis by simp
qed

lemma ensureImport_namespace_refused:
  assumes f: "findImportDeclaration decls m = Some i" and nb: "\<not> isNullOrWhitespace a"
    and "namespaceImport (decls ! i) = None" and "namedImports (decls ! i) \<noteq> []"
  shows "ensureImport decls a m Namespace = Inl InvalidOperation"
  using assms
  by (simp add: ensureImport_def hasImportSpecifier_def addSpecifierToImport_def
      setNamespaceImport_def)

text \<open>
  C5. As stated, the claim fails on both halves. The declaration \<^verbatim>\<open>import C from 'm'\<close>
  holds the default specifier \<^verbatim>\<open>C\<close> after the two calls for \<^verbatim>\<open>A\<close> and \<^verbatim>\<open>B\<close>, not \<^verbatim>\<open>A\<close>:
  both calls are silent. On \<^verbatim>\<open>import { a } from 'm'\<close> the call for the namespace
  specifier \<^verbatim>\<open>A\<close> is not silent and leaves no namespace specifier: ts-morph refuses a
  namespace import beside named imports, and the call ends in that error.
\<close>

theorem ensureImport_keeps_other_specifier_counterexample:
  "ensureImport
     [\<lparr>moduleSpecifierValue = ''m'', defaultImport = Some ''C'', namespaceImport = None, namedImports = []\<rparr>]
     ''A'' ''m'' Default
   = Inr [\<lparr>moduleSpecifierValue = ''m'', defaultImport = Some ''C'', namespaceImport = None, namedImports = []\<rparr>]
   \<and> ensureImport
     [\<lparr>moduleSpecifierValue = ''m'', defaultImport = Some ''C'', namespaceImport = None, namedImports = []\<rparr>]
     ''B'' ''m'' Default
   = Inr [\<lparr>moduleSpecifierValue = ''m'', defaultImport = Some ''C'', namespaceImport = None, namedImports = []\<rparr>]
   \<and> ensureImport
     [\<lparr>moduleSpecifierValue = ''m'', defaultImport = None, namespaceImport = None,
       namedImports = [(''a'', None)]\<rparr>]
     ''A'' ''m'' Namespace
   = Inl InvalidOperation"
  by (simp add: ensureImport_def findImportDeclaration_def hasImportSpecifier_def
      addSpecifierToImport_def setNamespaceImport_def isNullOrWhitespace_def)

text \<open>
  C5, as amended. The default and the namespace specifier are single slots of a
  declaration. For a specifier \<open>a\<close> that is an identifier and a module text \<open>m\<close> that is
  plain, \<^verbatim>\<open>ensureImport(a, m, 'default')\<close> followed by \<^verbatim>\<open>ensureImport(b, m, 'default')\<close>
  succeeds, the second call changes nothing, and the declaration for \<open>m\<close> holds the
  default specifier it held before the calls, or \<open>a\<close> when it held none. The same holds
  of the namespace slot, unless the declaration for \<open>m\<close> holds named imports and no
  namespace import: then the first call ends in the error of ts-morph.
\<close>

theorem ensureImport_fills_empty_slot:
  assumes "isIdentifierReference a" and "isPlainText m"
  shows "(\<exists>s1. ensureImport decls a m Default = Inr s1
             \<and> ensureImport s1 b m Default = Inr s1
             \<and> defaultImportOf s1 m = Some (case defaultImportOf decls m of None \<Rightarrow> a | Some c \<Rightarrow> c))
       \<and> (namedWithoutNamespace decls m \<longrightarrow>
             ensureImport decls a m Namespace = Inl InvalidOperation)
       \<and> (\<not> namedWithoutNamespace decls m \<longrightarrow>
            (\<exists>s1. ensureImport decls a m Namespace = Inr s1
               \<and> ensureImport s1 b m Namespace = Inr s1
               \<and> namespaceImportOf s1 m = Some (case namespaceImportOf decls m of None \<Rightarrow> a | Some c \<Rightarrow> c)))"
proof (cases "findImportDeclaration decls m")
  case None
  have d: "defaultImportOf decls m = None" and n: "namespaceImportOf decls m = None"
    and w: "\<not> namedWithoutNamespace decls m"
    using None by (simp_all add: defaultImportOf_def namespaceImportOf_def namedWithoutNamespace_def)
  from ensureImport_default_new[OF None, of a b] ensureImport_namespace_new[OF None, of a b] d n w
  show ?thesis by simp
next
  case (Some i)
  note nb = identifier_not_blank[OF assms(1)]
  have d: "defaultImportOf decls m = defaultImport (decls ! i)"
    and n: "namespaceImportOf decls m = namespaceImport (decls ! i)"
    and w: "namedWithoutNamespace decls m \<longleftrightarrow>
              namespaceImport (decls ! i) = None \<and> namedImports (decls ! i) \<noteq> []"
    using Some by (simp_all add: defaultImportOf_def namespaceImportOf_def namedWithoutNamespace_def)
  have c1: "\<exists>s1. ensureImport decls a m Default = Inr s1
             \<and> ensureImport s1 b m Default = Inr s1
             \<and> defaultImportOf s1 m = Some (case defaultImportOf decls m of None \<Rightarrow> a | Some c \<Rightarrow> c)"
    using ensureImport_default_existing[OF Some nb, of b] d by simp
  have c2: "namedWithoutNamespace decls m \<longrightarrow> ensureImport decls a m Namespace = Inl InvalidOperation"
    using ensureImport_namespace_refused[OF Some nb] w by simp
  have c3: "\<not> namedWithoutNamespace decls m \<longrightarrow>
            (\<exists>s1. ensureImport decls a m Namespace = Inr s1
               \<and> ensureImport s1 b m Namespace = Inr s1
               \<and> namespaceImportOf s1 m = Some (case namespaceImportOf decls m of None \<Rightarrow> a | Some c \<Rightarrow> c))"
  proof
    assume "\<not> namedWithoutNamespace decls m"
    with w have "namespaceImport (decls ! i) \<noteq> None \<or> namedImports (decls ! i) = []" by auto
    from ensureImport_namespace_existing[OF Some nb this, of b] n
    show "\<exists>s1. ensureImport decls a m Namespace = Inr s1
               \<and> ensureImport s1 b m Namespace = Inr s1
               \<and> namespaceImportOf s1 m = Some (case namespaceImportOf decls m of None \<Rightarrow> a | Some c \<Rightarrow> c)"
      by simp
  qed
  from c1 c2 c3 show ?thesis by blast
qed

theorem ensureImport_fills_empty_slot_witness:
  "isIdentifierReference ''A'' \<and> isPlainText ''m''
   \<and> ensureImport [] ''A'' ''m'' Default =
       Inr [\<lparr>moduleSpecifierValue = ''m'', defaultImport = Some ''A'', namespaceImport = None, namedImports = []\<rparr>]
   \<and> ensureImport [\<lparr>moduleSpecifierValue = ''m'', defaultImport = Some ''A'', namespaceImport = None, namedImports = []\<rparr>]
        ''B'' ''m'' Default =
       Inr [\<lparr>moduleSpecifierValue = ''m'', defaultImport = Some ''A'', namespaceImport = None, namedImports = []\<rparr>]
   \<and> ensureImport [] ''A'' ''m'' Namespace =
       Inr [\<lparr>moduleSpecifierValue = ''m'', defaultImport = None, namespaceImport = Some ''A'', namedImports = []\<rparr>]
   \<and> ensureImport [\<lparr>moduleSpecifierValue = ''m'', defaultImport = None, namespaceImport = Some ''A'', namedImports = []\<rparr>]
        ''B'' ''m'' Namespace =
       Inr [\<lparr>moduleSpecifierValue = ''m'', defaultImport = None, namespaceImport = Some ''A'', namedImports = []\<rparr>]
   \<and> namedWithoutNamespace
       [\<lparr>moduleSpecifierValue = ''m'', defaultImport = None, namespaceImport = None,
         namedImports = [(''a'', None)]\<rparr>] ''m''
   \<and> ensureImport
       [\<lparr>moduleSpecifierValue = ''m'', defaultImport = None, namespaceImport = None,
         namedImports = [(''a'', None)]\<rparr>] ''A'' ''m'' Namespace
     = Inl InvalidOperation"
proof -
  let ?n = "[\<lparr>moduleSpecifierValue = ''m'', defaultImport = None, namespaceImport = None,
         namedImports = [(''a'', None)]\<rparr>]"
  have h1: "isIdentifierReference ''A''"
    by (simp add: isIdentifierReference_def reservedWords_def text_eval)
  have h2: "isPlainText ''m''" by (simp add: text_eval)
  have w0: "\<not> namedWithoutNamespace [] ''m''"
    by (simp add: namedWithoutNamespace_def findImportDeclaration_def)
  have w1: "namedWithoutNamespace ?n ''m''"
    by (simp add: namedWithoutNamespace_def findImportDeclaration_def)
  have e1: "ensureImport [] ''A'' ''m'' Default =
       Inr [\<lparr>moduleSpecifierValue = ''m'', defaultImport = Some ''A'', namespaceImport = None, namedImports = []\<rparr>]"
    by (simp add: ensureImport_def findImportDeclaration_def createImportDeclaration_def)
  have e2: "ensureImport [] ''A'' ''m'' Namespace =
       Inr [\<lparr>moduleSpecifierValue = ''m'', defaultImport = None, namespaceImport = Some ''A'', namedImports = []\<rparr>]"
    by (simp add: ensureImport_def findImportDeclaration_def createImportDeclaration_def)
  from ensureImport_fills_empty_slot[OF h1 h2, of "[]" "''B''"] w0 e1 e2
  have a: "ensureImport [\<lparr>moduleSpecifierValue = ''m'', defaultImport = Some ''A'', namespaceImport = None, namedImports = []\<rparr>]
        ''B'' ''m'' Default =
       Inr [\<lparr>moduleSpecifierValue = ''m'', defaultImport = Some ''A'', namespaceImport = None, namedImports = []\<rparr>]"
    and b: "ensureImport [\<lparr>moduleSpecifierValue = ''m'', defaultImport = None, namespaceImport = Some ''A'', namedImports = []\<rparr>]
        ''B'' ''m'' Namespace =
       Inr [\<lparr>moduleSpecifierValue = ''m'', defaultImport = None, namespaceImport = Some ''A'', namedImports = []\<rparr>]"
    by auto
  from ensureImport_fills_empty_slot[OF h1 h2, of ?n "''B''"] w1
  have c: "ensureImport ?n ''A'' ''m'' Namespace = Inl InvalidOperation" by blast
  from h1 h2 e1 e2 a b w1 c show ?thesis by simp
qed



end
